theory Spec2Isabelle
  imports Main "HOL-Library.Word" "HOL-Library.Signed_Division"
begin

unbundle bit_operations_syntax

section \<open>Go integers\<close>

text \<open>
  Go's \<^verbatim>\<open>int32\<close>, \<^verbatim>\<open>uint32\<close>, \<^verbatim>\<open>int64\<close> and \<^verbatim>\<open>uint64\<close> are machine words; the signed
  ones are read with \<open>sint\<close> and compared with \<open>\<le>s\<close> and \<open><s\<close>. An untyped constant
  takes the type of the expression it stands in.
\<close>

type_synonym byte = "8 word"
type_synonym int32 = "32 word"
type_synonym uint32 = "32 word"
type_synonym int64 = "64 word"
type_synonym uint64 = "64 word"

text \<open>
  \<^verbatim>\<open>a / b\<close> and \<^verbatim>\<open>a % b\<close> on \<^verbatim>\<open>int32\<close>: the quotient is truncated towards zero and
  the remainder takes the sign of the dividend (\<open>sdiv\<close> and \<open>smod\<close> on \<open>int\<close>); the
  result is wrapped to 32 bits. Both call sites below divide by a non-zero constant.
\<close>

definition go_div32 :: "int32 \<Rightarrow> int32 \<Rightarrow> int32" where
  "go_div32 a b = word_of_int (sint a sdiv sint b)"

definition go_rem32 :: "int32 \<Rightarrow> int32 \<Rightarrow> int32" where
  "go_rem32 a b = word_of_int (sint a smod sint b)"

text \<open>
  \<^verbatim>\<open>x << s\<close> with \<^verbatim>\<open>x\<close> an \<^verbatim>\<open>int64\<close> and \<^verbatim>\<open>s\<close> a signed \<^verbatim>\<open>int32\<close> count: a negative
  count is a run-time panic (\<open>None\<close>); otherwise the bits are shifted out of the 64-bit
  word, a count of 64 or more leaving 0.
\<close>

definition go_shl64 :: "int64 \<Rightarrow> int32 \<Rightarrow> int64 option" where
  "go_shl64 x s = (if s <s 0 then None else Some (push_bit (unat s) x))"

section \<open>doge/auxpow.go\<close>

definition blockMinVersionAuxpow :: int32 where
  "blockMinVersionAuxpow = 0x00620002"

definition blockVersionFlagAuxpow :: int32 where
  "blockVersionFlagAuxpow = 0x00000100"

definition versionAuxPow :: int32 where
  "versionAuxPow = push_bit 8 1"

definition IsAuxPoWBlockVersion :: "int32 \<Rightarrow> bool" where
  "IsAuxPoWBlockVersion version \<longleftrightarrow>
     blockMinVersionAuxpow \<le>s version \<and> 0 <s (version AND blockVersionFlagAuxpow)"

definition GetBaseVersion :: "int32 \<Rightarrow> int32" where
  "GetBaseVersion version = go_rem32 version versionAuxPow"

section \<open>doge/validation.go\<close>

definition digishieldBlockHeight :: int32 where
  "digishieldBlockHeight = 145000"

definition baseSubsidy :: int64 where
  "baseSubsidy = 50000000000000"

definition subsidyDecreaseBlockCount :: int32 where
  "subsidyDecreaseBlockCount = 100000"

text \<open>
  \<^verbatim>\<open>CalcBlockSubsidy\<close> returns an \<^verbatim>\<open>int64\<close>, or panics in a shift (\<open>None\<close>).
\<close>

definition CalcBlockSubsidy :: "int32 \<Rightarrow> int64 option" where
  "CalcBlockSubsidy height =
     (if height <s digishieldBlockHeight then
        map_option (\<lambda>v. v * 2)
          (go_shl64 baseSubsidy (go_div32 height subsidyDecreaseBlockCount))
      else if height <s 600000 then
        go_shl64 baseSubsidy (go_div32 height subsidyDecreaseBlockCount)
      else Some baseSubsidy)"

section \<open>wire/auxblockheader.go: data\<close>

text \<open>
  Error values. The first two are the error kinds of the wire format (the stream ended
  inside a field; the transaction codec reported a failure). \<open>InvalidType\<close> is what Go's
  \<^verbatim>\<open>encoding/binary\<close> answers when it is handed a value it cannot fill or cannot lay
  out.
\<close>

datatype error = TruncatedInput | UpstreamCodecFailure | InvalidType

text \<open>
  \<^verbatim>\<open>chainhash.Hash\<close> is \<^verbatim>\<open>[32]byte\<close>: a byte list, of length \<open>HashSize\<close> in every
  well-formed value. A \<^verbatim>\<open>[]*chainhash.Hash\<close> is the list of the hashes pointed to; a nil
  slice and an empty slice are both \<open>[]\<close>.
\<close>

type_synonym Hash = "byte list"

definition HashSize :: nat where
  "HashSize = 32"

definition zeroHash :: Hash where
  "zeroHash = replicate HashSize 0"

text \<open>
  \<^verbatim>\<open>time.Time\<close>, as far as the code looks at it: the seconds since the Unix epoch that
  \<^verbatim>\<open>Unix()\<close> returns and the nanoseconds within the second. \<open>timeUnix s\<close> is
  \<^verbatim>\<open>time.Unix(s, 0)\<close>; \<open>zeroTime\<close> is the zero \<^verbatim>\<open>time.Time\<close> (1 January of year 1).
\<close>

record Time =
  unixSec :: int
  nsec :: nat

definition zeroTime :: Time where
  "zeroTime = \<lparr>unixSec = - 62135596800, nsec = 0\<rparr>"

definition timeUnix :: "int64 \<Rightarrow> Time" where
  "timeUnix s = \<lparr>unixSec = sint s, nsec = 0\<rparr>"

record MerkleBranch =
  LinkHashes :: "Hash list"
  BranchSidesBitmask :: int32

record ParentBlock =
  Version :: int32
  PrevBlock :: Hash
  MerkleRoot :: Hash
  Timestamp :: Time
  Bits :: uint32
  Nonce :: uint32

text \<open>
  \<^verbatim>\<open>MsgTx\<close> is declared outside the source files: the header is polymorphic in the
  transaction type \<open>'tx\<close>.
\<close>

record 'tx AuxBlockHeader =
  ParentCoinbase :: 'tx
  ParentBlockHash :: Hash
  CoinbaseBranch :: MerkleBranch
  BlockchainBranch :: MerkleBranch
  ParentBlock :: ParentBlock

text \<open>
  \<^verbatim>\<open>BlockHeader\<close> is declared outside the source files; its fields are those that the
  composite literal in \<^verbatim>\<open>ToBlockHeader\<close> names.
\<close>

record 'tx BlockHeader =
  Version :: int32
  PrevBlock :: Hash
  MerkleRoot :: Hash
  Timestamp :: Time
  Bits :: uint32
  Nonce :: uint32
  AuxData :: "'tx AuxBlockHeader"

text \<open>
  What the code uses of \<^verbatim>\<open>MsgTx\<close>, taken as a parameter: its zero value, its
  \<^verbatim>\<open>BtcDecode\<close> (stream, protocol version and receiver to error, receiver afterwards
  and rest of the stream) and the bytes its \<^verbatim>\<open>BtcEncode\<close> writes. The encoding argument
  is \<^verbatim>\<open>BaseEncoding\<close> at both call sites.
\<close>

record 'tx MsgTxCodec =
  zeroMsgTx :: 'tx
  BtcDecode :: "byte list \<Rightarrow> uint32 \<Rightarrow> 'tx \<Rightarrow> error option \<times> 'tx \<times> byte list"
  BtcEncode :: "'tx \<Rightarrow> uint32 \<Rightarrow> byte list"

section \<open>Primitive codec\<close>

text \<open>
  An \<^verbatim>\<open>io.Reader\<close> is the list of the bytes still to be read, an \<^verbatim>\<open>io.Writer\<close> the list
  of the bytes written so far; writing to it does not fail.
\<close>

text \<open>
  Modelled from the spec: the little-endian layout of multi-byte integers (section 6);
  the byte-order helpers are not among the source files.
\<close>

definition littleEndian_get :: "byte list \<Rightarrow> 'a::len word" where
  "littleEndian_get bs = foldr (\<lambda>b w. ucast b OR push_bit 8 w) bs 0"

definition littleEndian_put :: "nat \<Rightarrow> 'a::len word \<Rightarrow> byte list" where
  "littleEndian_put n w = map (\<lambda>i. ucast (drop_bit (8 * i) w)) [0..<n]"

text \<open>
  \<^verbatim>\<open>io.ReadFull\<close> on \<open>n\<close> bytes: the bytes read and the rest of the stream. A stream
  that ends early is used up, and the bytes it still had are handed over with the error.
\<close>

definition ReadFull :: "byte list \<Rightarrow> nat \<Rightarrow> error option \<times> byte list \<times> byte list" where
  "ReadFull r n =
     (if n \<le> length r then (None, take n r, drop n r) else (Some TruncatedInput, r, []))"

text \<open>
  Modelled from the spec: \<^verbatim>\<open>ReadVarInt\<close> and \<^verbatim>\<open>WriteVarInt\<close>, which are not among the
  source files. Section 6: one byte for values below \<open>0xfd\<close>, else a marker byte and 2, 4
  or 8 bytes, little-endian. The spec states no check of a minimal encoding and none is
  modelled.
\<close>

definition ReadVarInt :: "byte list \<Rightarrow> uint32 \<Rightarrow> error option \<times> uint64 \<times> byte list" where
  "ReadVarInt r pver =
     (case r of
        [] \<Rightarrow> (Some TruncatedInput, 0, [])
      | d # r1 \<Rightarrow>
          (let n = (if d = 0xff then 8 else if d = 0xfe then 4 else if d = 0xfd then 2 else 0)
           in if n = 0 then (None, ucast d, r1)
              else (case ReadFull r1 n of
                      (Some e, bs, r2) \<Rightarrow> (Some e, 0, r2)
                    | (None, bs, r2) \<Rightarrow> (None, littleEndian_get bs, r2))))"

definition WriteVarInt :: "byte list \<Rightarrow> uint32 \<Rightarrow> uint64 \<Rightarrow> byte list" where
  "WriteVarInt w pver val =
     (if val < 0xfd then w @ [ucast val]
      else if val \<le> 0xffff then w @ 0xfd # littleEndian_put 2 val
      else if val \<le> 0xffffffff then w @ 0xfe # littleEndian_put 4 val
      else w @ 0xff # littleEndian_put 8 val)"

text \<open>
  Modelled from the spec: \<^verbatim>\<open>readElement\<close>, which is not among the source files, one
  definition for each type of argument that the source passes to it. Each takes the
  stream and the value its argument holds, and returns the error, the value held
  afterwards and the rest of the stream. Section 6: a hash is 32 bytes verbatim, an
  integer is little-endian, the timestamp is an unsigned 32-bit count of seconds.
  A hash is filled in place, so a stream that ends inside it overwrites its first bytes;
  an integer is stored only once its four bytes are there.
\<close>

definition readElement_Hash :: "byte list \<Rightarrow> Hash \<Rightarrow> error option \<times> Hash \<times> byte list" where
  "readElement_Hash r e =
     (case ReadFull r HashSize of
        (None, bs, r') \<Rightarrow> (None, bs, r')
      | (Some err, bs, r') \<Rightarrow> (Some err, bs @ drop (length bs) e, r'))"

definition readElement_int32 :: "byte list \<Rightarrow> int32 \<Rightarrow> error option \<times> int32 \<times> byte list" where
  "readElement_int32 r e =
     (case ReadFull r 4 of
        (None, bs, r') \<Rightarrow> (None, littleEndian_get bs, r')
      | (Some err, bs, r') \<Rightarrow> (Some err, e, r'))"

definition readElement_uint32 :: "byte list \<Rightarrow> uint32 \<Rightarrow> error option \<times> uint32 \<times> byte list" where
  "readElement_uint32 r e =
     (case ReadFull r 4 of
        (None, bs, r') \<Rightarrow> (None, littleEndian_get bs, r')
      | (Some err, bs, r') \<Rightarrow> (Some err, e, r'))"

definition readElement_uint32Time :: "byte list \<Rightarrow> Time \<Rightarrow> error option \<times> Time \<times> byte list" where
  "readElement_uint32Time r e =
     (case ReadFull r 4 of
        (None, bs, r') \<Rightarrow> (None, timeUnix (ucast (littleEndian_get bs :: uint32)), r')
      | (Some err, bs, r') \<Rightarrow> (Some err, e, r'))"

text \<open>
  Modelled from the spec: \<^verbatim>\<open>readElement\<close> handed an \<^verbatim>\<open>int32\<close> itself and not a pointer
  to one, as the source does with both bitmasks. A Go function cannot assign to a variable
  it received by value, so there is no value to return: only the error and the rest of
  the stream. The four bytes of the field are taken from the stream (all that is left,
  when fewer are) and \<^verbatim>\<open>encoding/binary\<close> then rejects the argument.
\<close>

definition readElement_int32_byValue :: "byte list \<Rightarrow> int32 \<Rightarrow> error option \<times> byte list" where
  "readElement_int32_byValue r v =
     (case ReadFull r 4 of
        (None, bs, r') \<Rightarrow> (Some InvalidType, r')
      | (Some err, bs, r') \<Rightarrow> (Some err, r'))"

text \<open>
  The arguments that the source passes to \<^verbatim>\<open>writeElements\<close>, by their Go type:
  a \<^verbatim>\<open>uint32\<close>, an \<^verbatim>\<open>int32\<close>, a \<^verbatim>\<open>*chainhash.Hash\<close> and a \<^verbatim>\<open>**chainhash.Hash\<close> (the
  address of an element of a \<^verbatim>\<open>[]*chainhash.Hash\<close>), each with the value it leads to.
\<close>

datatype element =
    Uint32 uint32
  | Int32 int32
  | HashPtr Hash
  | HashPtrPtr Hash

text \<open>
  Modelled from the spec: \<^verbatim>\<open>writeElement\<close> and \<^verbatim>\<open>writeElements\<close>, which are not among
  the source files. Section 6: an integer is written little-endian, a hash as its 32
  bytes. A pointer to a pointer is not a value of the wire format: \<^verbatim>\<open>encoding/binary\<close>
  rejects it and nothing is written. \<^verbatim>\<open>writeElements\<close> writes its arguments in order and
  stops at the first error.
\<close>

fun writeElement :: "byte list \<Rightarrow> element \<Rightarrow> error option \<times> byte list" where
  "writeElement w (Uint32 e) = (None, w @ littleEndian_put 4 e)"
| "writeElement w (Int32 e) = (None, w @ littleEndian_put 4 e)"
| "writeElement w (HashPtr e) = (None, w @ e)"
| "writeElement w (HashPtrPtr e) = (Some InvalidType, w)"

fun writeElements :: "byte list \<Rightarrow> element list \<Rightarrow> error option \<times> byte list" where
  "writeElements w [] = (None, w)"
| "writeElements w (e # es) =
     (case writeElement w e of
        (Some err, w') \<Rightarrow> (Some err, w')
      | (None, w') \<Rightarrow> writeElements w' es)"

text \<open>
  Modelled from the spec: \<^verbatim>\<open>writeBlockHeader\<close>, which is not among the source files.
  Section 4.4: the six fields in order, the timestamp cut to whole seconds and then to 32
  bits. The spec does not describe the boolean argument; it is not used.
\<close>

definition writeBlockHeader ::
  "byte list \<Rightarrow> uint32 \<Rightarrow> 'tx BlockHeader \<Rightarrow> bool \<Rightarrow> error option \<times> byte list" where
  "writeBlockHeader w pver bh flag =
     (let sec = (word_of_int (unixSec (BlockHeader.Timestamp bh)) :: uint32)
      in writeElements w
           [Int32 (BlockHeader.Version bh), HashPtr (BlockHeader.PrevBlock bh),
            HashPtr (BlockHeader.MerkleRoot bh), Uint32 sec,
            Uint32 (BlockHeader.Bits bh), Uint32 (BlockHeader.Nonce bh)])"

section \<open>wire/auxblockheader.go: operations\<close>

text \<open>The zero values of the structures; \<open>zeroAuxBlockHeader\<close> is \<^verbatim>\<open>AuxBlockHeader{}\<close>.\<close>

definition zeroMerkleBranch :: MerkleBranch where
  "zeroMerkleBranch = \<lparr>LinkHashes = [], BranchSidesBitmask = 0\<rparr>"

definition zeroParentBlock :: ParentBlock where
  "zeroParentBlock =
     \<lparr>ParentBlock.Version = 0, PrevBlock = zeroHash, MerkleRoot = zeroHash,
      Timestamp = zeroTime, Bits = 0, Nonce = 0\<rparr>"

definition zeroAuxBlockHeader :: "'tx MsgTxCodec \<Rightarrow> 'tx AuxBlockHeader" where
  "zeroAuxBlockHeader c =
     \<lparr>ParentCoinbase = zeroMsgTx c, ParentBlockHash = zeroHash,
      CoinbaseBranch = zeroMerkleBranch, BlockchainBranch = zeroMerkleBranch,
      ParentBlock = zeroParentBlock\<rparr>"

definition ToBlockHeader :: "'tx MsgTxCodec \<Rightarrow> ParentBlock \<Rightarrow> 'tx BlockHeader" where
  "ToBlockHeader c pb =
     \<lparr>BlockHeader.Version = ParentBlock.Version pb,
      PrevBlock = ParentBlock.PrevBlock pb,
      MerkleRoot = ParentBlock.MerkleRoot pb,
      Timestamp = ParentBlock.Timestamp pb,
      Bits = ParentBlock.Bits pb,
      Nonce = ParentBlock.Nonce pb,
      AuxData = zeroAuxBlockHeader c\<rparr>"

text \<open>
  \<^verbatim>\<open>(*ParentBlock).BtcDecode\<close>: \<^verbatim>\<open>readElements\<close> on the addresses of the six fields, in
  order, stopping at the first error. The receiver is returned as the call leaves it.
\<close>

definition ParentBlock_BtcDecode ::
  "byte list \<Rightarrow> ParentBlock \<Rightarrow> error option \<times> ParentBlock \<times> byte list" where
  "ParentBlock_BtcDecode r pb =
     (case readElement_int32 r (ParentBlock.Version pb) of
        (Some e, v, r1) \<Rightarrow> (Some e, pb\<lparr>ParentBlock.Version := v\<rparr>, r1)
      | (None, v, r1) \<Rightarrow>
     (let pb1 = pb\<lparr>ParentBlock.Version := v\<rparr> in
      case readElement_Hash r1 (ParentBlock.PrevBlock pb1) of
        (Some e, h, r2) \<Rightarrow> (Some e, pb1\<lparr>ParentBlock.PrevBlock := h\<rparr>, r2)
      | (None, h, r2) \<Rightarrow>
     (let pb2 = pb1\<lparr>ParentBlock.PrevBlock := h\<rparr> in
      case readElement_Hash r2 (ParentBlock.MerkleRoot pb2) of
        (Some e, h, r3) \<Rightarrow> (Some e, pb2\<lparr>ParentBlock.MerkleRoot := h\<rparr>, r3)
      | (None, h, r3) \<Rightarrow>
     (let pb3 = pb2\<lparr>ParentBlock.MerkleRoot := h\<rparr> in
      case readElement_uint32Time r3 (ParentBlock.Timestamp pb3) of
        (Some e, t, r4) \<Rightarrow> (Some e, pb3\<lparr>ParentBlock.Timestamp := t\<rparr>, r4)
      | (None, t, r4) \<Rightarrow>
     (let pb4 = pb3\<lparr>ParentBlock.Timestamp := t\<rparr> in
      case readElement_uint32 r4 (ParentBlock.Bits pb4) of
        (Some e, b, r5) \<Rightarrow> (Some e, pb4\<lparr>ParentBlock.Bits := b\<rparr>, r5)
      | (None, b, r5) \<Rightarrow>
     (let pb5 = pb4\<lparr>ParentBlock.Bits := b\<rparr> in
      case readElement_uint32 r5 (ParentBlock.Nonce pb5) of
        (e, n, r6) \<Rightarrow> (e, pb5\<lparr>ParentBlock.Nonce := n\<rparr>, r6)))))))"

text \<open>
  A call either panics or returns: its error (\<open>None\<close> is \<^verbatim>\<open>nil\<close>), the receiver as the
  call leaves it, and the rest of the stream.
\<close>

datatype 'a outcome = Panic | Return "error option" 'a "byte list"

text \<open>
  \<^verbatim>\<open>make([]chainhash.Hash, count)\<close> panics when \<open>count\<close> elements of 32 bytes exceed the
  largest allocation of the Go runtime, \<open>2 ^ 48\<close> bytes on a 64-bit platform. A smaller
  request is taken to be served.
\<close>

definition maxAlloc :: uint64 where
  "maxAlloc = 0x1000000000000"

text \<open>
  The loop over the link hashes, \<open>n\<close> hashes still to come: each is read into a zeroed
  array element and appended once it is complete; the first error ends the enclosing
  function.
\<close>

fun readLinkHashes ::
  "nat \<Rightarrow> byte list \<Rightarrow> Hash list \<Rightarrow> error option \<times> Hash list \<times> byte list" where
  "readLinkHashes 0 r hs = (None, hs, r)"
| "readLinkHashes (Suc n) r hs =
     (case readElement_Hash r zeroHash of
        (Some err, h, r') \<Rightarrow> (Some err, hs, r')
      | (None, h, r') \<Rightarrow> readLinkHashes n r' (hs @ [h]))"

text \<open>
  Lines 152 to 166 of \<^verbatim>\<open>readAuxBlockHeader\<close> on the coinbase branch, and the same text at
  lines 168 to 182 on the blockchain branch: the count, the hashes, and the bitmask handed
  to \<^verbatim>\<open>readElement\<close> by value with the error dropped. \<open>Return (Some err)\<close> is a
  \<^verbatim>\<open>return err\<close> of the enclosing function, \<open>Return None\<close> is control reaching the end of
  the block.
\<close>

definition readMerkleBranch ::
  "byte list \<Rightarrow> uint32 \<Rightarrow> MerkleBranch \<Rightarrow> MerkleBranch outcome" where
  "readMerkleBranch r pver mb =
     (case ReadVarInt r pver of
        (Some err, count, r1) \<Rightarrow> Return (Some err) mb r1
      | (None, count, r1) \<Rightarrow>
          if maxAlloc div 32 < count then Panic
          else (case readLinkHashes (unat count) r1 [] of
                  (Some err, hs, r2) \<Rightarrow> Return (Some err) (mb\<lparr>LinkHashes := hs\<rparr>) r2
                | (None, hs, r2) \<Rightarrow>
                    (case readElement_int32_byValue r2 (BranchSidesBitmask mb) of
                       (dropped, r3) \<Rightarrow> Return None (mb\<lparr>LinkHashes := hs\<rparr>) r3)))"

text \<open>
  \<^verbatim>\<open>readAuxBlockHeader\<close>. The errors of the transaction decode, of the parent block hash
  and of the parent block are dropped, as the source drops them.
\<close>

definition readAuxBlockHeader ::
  "'tx MsgTxCodec \<Rightarrow> byte list \<Rightarrow> uint32 \<Rightarrow> 'tx AuxBlockHeader
     \<Rightarrow> 'tx AuxBlockHeader outcome" where
  "readAuxBlockHeader c r pver bh =
     (case BtcDecode c r pver (ParentCoinbase bh) of (dropped1, tx, r1) \<Rightarrow>
      let bh1 = bh\<lparr>ParentCoinbase := tx\<rparr> in
      case readElement_Hash r1 (ParentBlockHash bh1) of (dropped2, h, r2) \<Rightarrow>
      let bh2 = bh1\<lparr>ParentBlockHash := h\<rparr> in
      case readMerkleBranch r2 pver (CoinbaseBranch bh2) of
        Panic \<Rightarrow> Panic
      | Return (Some err) mb r3 \<Rightarrow> Return (Some err) (bh2\<lparr>CoinbaseBranch := mb\<rparr>) r3
      | Return None mb r3 \<Rightarrow>
      let bh3 = bh2\<lparr>CoinbaseBranch := mb\<rparr> in
      case readMerkleBranch r3 pver (BlockchainBranch bh3) of
        Panic \<Rightarrow> Panic
      | Return (Some err) mb r4 \<Rightarrow> Return (Some err) (bh3\<lparr>BlockchainBranch := mb\<rparr>) r4
      | Return None mb r4 \<Rightarrow>
      let bh4 = bh3\<lparr>BlockchainBranch := mb\<rparr> in
      case ParentBlock_BtcDecode r4 (ParentBlock bh4) of (dropped3, pb, r5) \<Rightarrow>
      Return None (bh4\<lparr>ParentBlock := pb\<rparr>) r5)"

text \<open>
  The loop of \<^verbatim>\<open>writeAuxBlockHeader\<close> over the link hashes: each turn calls
  \<^verbatim>\<open>writeElements(w, pver, &LinkHashes[i])\<close> and drops its error.
\<close>

fun writeLinkHashes :: "byte list \<Rightarrow> uint32 \<Rightarrow> Hash list \<Rightarrow> byte list" where
  "writeLinkHashes w pver [] = w"
| "writeLinkHashes w pver (h # hs) =
     writeLinkHashes (snd (writeElements w [Uint32 pver, HashPtrPtr h])) pver hs"

text \<open>
  Lines 197 to 202 of \<^verbatim>\<open>writeAuxBlockHeader\<close> on the coinbase branch, and the same text
  at lines 204 to 209 on the blockchain branch. The loop runs over the first \<open>count\<close>
  hashes, which are all of them: a Go slice has fewer than \<open>2 ^ 64\<close> elements.
\<close>

definition writeMerkleBranch :: "byte list \<Rightarrow> uint32 \<Rightarrow> MerkleBranch \<Rightarrow> byte list" where
  "writeMerkleBranch w pver mb =
     (let count = (of_nat (length (LinkHashes mb)) :: uint64);
          w1 = WriteVarInt w pver count;
          w2 = writeLinkHashes w1 pver (take (unat count) (LinkHashes mb))
      in snd (writeElements w2 [Int32 (BranchSidesBitmask mb)]))"

definition writeAuxBlockHeader ::
  "'tx MsgTxCodec \<Rightarrow> byte list \<Rightarrow> uint32 \<Rightarrow> 'tx AuxBlockHeader
     \<Rightarrow> error option \<times> byte list" where
  "writeAuxBlockHeader c w pver bh =
     (let w1 = w @ BtcEncode c (ParentCoinbase bh) pver;
          w2 = snd (writeElements w1 [HashPtr (ParentBlockHash bh)]);
          w3 = writeMerkleBranch w2 pver (CoinbaseBranch bh);
          w4 = writeMerkleBranch w3 pver (BlockchainBranch bh);
          w5 = snd (writeBlockHeader w4 pver (ToBlockHeader c (ParentBlock bh)) True)
      in (None, w5))"

section \<open>An instance of the transaction codec\<close>

text \<open>
  To run the header codec on concrete streams the parameter needs a value. This one
  covers the transactions without inputs and outputs, which the base encoding lays out as
  the version, two zero counts and the lock time; it reports a failure on every other
  stream, at the count that is not zero or at the end of the stream.
\<close>

record EmptyTx =
  TxVersion :: int32
  LockTime :: uint32

definition emptyTx_BtcDecode ::
  "byte list \<Rightarrow> uint32 \<Rightarrow> EmptyTx \<Rightarrow> error option \<times> EmptyTx \<times> byte list" where
  "emptyTx_BtcDecode r pver msg =
     (case readElement_int32 r (TxVersion msg) of
        (Some e, v, r1) \<Rightarrow> (Some UpstreamCodecFailure, msg, r1)
      | (None, v, r1) \<Rightarrow>
     (let msg1 = msg\<lparr>TxVersion := v\<rparr> in
      case ReadVarInt r1 pver of
        (Some e, n, r2) \<Rightarrow> (Some UpstreamCodecFailure, msg1, r2)
      | (None, n, r2) \<Rightarrow>
      if n \<noteq> 0 then (Some UpstreamCodecFailure, msg1, r2) else
     (case ReadVarInt r2 pver of
        (Some e, n, r3) \<Rightarrow> (Some UpstreamCodecFailure, msg1, r3)
      | (None, n, r3) \<Rightarrow>
      if n \<noteq> 0 then (Some UpstreamCodecFailure, msg1, r3) else
     (case readElement_uint32 r3 (LockTime msg1) of
        (Some e, l, r4) \<Rightarrow> (Some UpstreamCodecFailure, msg1, r4)
      | (None, l, r4) \<Rightarrow> (None, msg1\<lparr>LockTime := l\<rparr>, r4)))))"

definition emptyTx_BtcEncode :: "EmptyTx \<Rightarrow> uint32 \<Rightarrow> byte list" where
  "emptyTx_BtcEncode msg pver =
     littleEndian_put 4 (TxVersion msg) @ [0, 0] @ littleEndian_put 4 (LockTime msg)"

definition emptyTxCodec :: "EmptyTx MsgTxCodec" where
  "emptyTxCodec =
     \<lparr>zeroMsgTx = \<lparr>TxVersion = 0, LockTime = 0\<rparr>,
      BtcDecode = emptyTx_BtcDecode, BtcEncode = emptyTx_BtcEncode\<rparr>"

text \<open>
  The parent blocks that the wire format can carry: hashes of 32 bytes and a timestamp of
  whole seconds that fits an unsigned 32-bit integer.
\<close>

definition validParentBlock :: "ParentBlock \<Rightarrow> bool" where
  "validParentBlock pb \<longleftrightarrow>
     length (ParentBlock.PrevBlock pb) = 32 \<and> length (ParentBlock.MerkleRoot pb) = 32
     \<and> 0 \<le> unixSec (ParentBlock.Timestamp pb) \<and> unixSec (ParentBlock.Timestamp pb) < 4294967296
     \<and> nsec (ParentBlock.Timestamp pb) = 0"

text \<open>Sample values for the concrete runs below.\<close>

definition sampleParentBlock :: ParentBlock where
  "sampleParentBlock =
     \<lparr>ParentBlock.Version = 1, PrevBlock = replicate 32 2, MerkleRoot = replicate 32 3,
      Timestamp = \<lparr>unixSec = 1400000000, nsec = 0\<rparr>, Bits = 0x1e0ffff0, Nonce = 7\<rparr>"

definition sampleHeader :: "MerkleBranch \<Rightarrow> MerkleBranch \<Rightarrow> EmptyTx AuxBlockHeader" where
  "sampleHeader cb bb =
     \<lparr>ParentCoinbase = \<lparr>TxVersion = 1, LockTime = 0\<rparr>, ParentBlockHash = replicate 32 9,
      CoinbaseBranch = cb, BlockchainBranch = bb, ParentBlock = sampleParentBlock\<rparr>"

section \<open>Version flags\<close>

lemma sint_word_of_int_32:
  "- 2147483648 \<le> k \<Longrightarrow> k < 2147483648 \<Longrightarrow> sint (word_of_int k :: int32) = k"
  by (simp add: sint_sbintrunc' signed_take_bit_int_eq_self)

lemma bit_flag_iff: "bit (0x100 :: int32) n \<longleftrightarrow> n = 8"
  using bit_exp_iff [where ?'a = int32, of 8 n] by auto

lemma flag_and_cases: "(v :: int32) AND 0x100 = 0 \<or> v AND 0x100 = 0x100"
proof (cases "bit v 8")
  case True
  have "v AND 0x100 = 0x100"
    by (rule bit_word_eqI) (use True in \<open>auto simp only: bit_and_iff bit_flag_iff bit_0_eq\<close>)
  then show ?thesis by simp
next
  case False
  have "v AND 0x100 = 0"
    by (rule bit_word_eqI) (use False in \<open>auto simp only: bit_and_iff bit_flag_iff bit_0_eq\<close>)
  then show ?thesis by simp
qed

lemma flag_positive_iff: "0 <s ((v :: int32) AND 0x100) \<longleftrightarrow> v AND 0x100 \<noteq> 0"
  using flag_and_cases [of v] by (auto simp add: word_sless_alt)

text \<open>
  Claim C5. For every 32-bit signed version \<open>v\<close>, \<^verbatim>\<open>IsAuxPoWBlockVersion\<close> is true exactly
  when \<open>v\<close>, read as a signed number, is at least \<open>0x00620002\<close> and bit 8 of \<open>v\<close> is set;
  it is true at \<open>0x00620102\<close>, false at \<open>0x00620002\<close> (flag unset) and false at
  \<open>0x00000102\<close> (below the threshold).
\<close>

theorem IsAuxPoWBlockVersion_iff:
  "(IsAuxPoWBlockVersion v \<longleftrightarrow> 0x00620002 \<le> sint v \<and> v AND 0x100 \<noteq> 0)
   \<and> IsAuxPoWBlockVersion 0x00620102
   \<and> \<not> IsAuxPoWBlockVersion 0x00620002
   \<and> \<not> IsAuxPoWBlockVersion 0x00000102"
proof -
  have "IsAuxPoWBlockVersion v \<longleftrightarrow> 0x00620002 \<le> sint v \<and> v AND 0x100 \<noteq> 0"
    unfolding IsAuxPoWBlockVersion_def blockMinVersionAuxpow_def blockVersionFlagAuxpow_def
    by (simp add: flag_positive_iff word_sle_eq)
  moreover have "IsAuxPoWBlockVersion 0x00620102" by code_simp
  moreover have "\<not> IsAuxPoWBlockVersion 0x00620002" by code_simp
  moreover have "\<not> IsAuxPoWBlockVersion 0x00000102" by code_simp
  ultimately show ?thesis by blast
qed

lemma trunc_rem_bounds:
  fixes k :: int
  shows "- 256 < sgn k * (\<bar>k\<bar> mod 256)" and "sgn k * (\<bar>k\<bar> mod 256) < 256"
proof -
  have "0 \<le> \<bar>k\<bar> mod 256" and "\<bar>k\<bar> mod 256 < 256" by simp_all
  then show "- 256 < sgn k * (\<bar>k\<bar> mod 256)" and "sgn k * (\<bar>k\<bar> mod 256) < 256"
    by (auto simp: sgn_if)
qed

text \<open>
  Claim C6. For every 32-bit signed version \<open>v\<close>, negative ones included,
  \<^verbatim>\<open>GetBaseVersion\<close> is the remainder of \<open>v\<close> by 256 under truncating division: its sign is
  that of \<open>v\<close> and its magnitude is \<open>|v| mod 256\<close>. At \<open>0x00620102\<close> it is 2; at \<open>-257\<close>
  it is \<open>-1\<close>.
\<close>

theorem GetBaseVersion_truncating_rem:
  "sint (GetBaseVersion v) = sgn (sint v) * (\<bar>sint v\<bar> mod 256)
   \<and> sint (GetBaseVersion v) = sint v smod 256
   \<and> GetBaseVersion 0x00620102 = 2
   \<and> sint (GetBaseVersion (- 257)) = - 1"
proof -
  have "GetBaseVersion v = word_of_int (sgn (sint v) * (\<bar>sint v\<bar> mod 256))"
    unfolding GetBaseVersion_def go_rem32_def versionAuxPow_def
    by (simp only: smod_int_alt_def) simp
  moreover have "sint (word_of_int (sgn (sint v) * (\<bar>sint v\<bar> mod 256)) :: int32)
      = sgn (sint v) * (\<bar>sint v\<bar> mod 256)"
    using trunc_rem_bounds [of "sint v"] by (intro sint_word_of_int_32) linarith+
  ultimately have a: "sint (GetBaseVersion v) = sgn (sint v) * (\<bar>sint v\<bar> mod 256)"
    by (simp only:)
  then have b: "sint (GetBaseVersion v) = sint v smod 256"
    by (simp only: smod_int_alt_def) simp
  have c: "GetBaseVersion 0x00620102 = 2" by code_simp
  have d: "sint (GetBaseVersion (- 257)) = - 1" by code_simp
  from a b c d show ?thesis by blast
qed

section \<open>Block subsidy\<close>

lemma go_div32_nonneg:
  assumes "0 \<le> sint h" and "sint h < 600000"
  shows "go_div32 h subsidyDecreaseBlockCount = word_of_int (sint h div 100000)"
    and "0 \<le> sint h div 100000" and "sint h div 100000 \<le> 5"
  using assms
  by (simp_all add: go_div32_def subsidyDecreaseBlockCount_def signed_divide_int_def sgn_if)

lemma go_shl64_small:
  assumes "0 \<le> k" and "k \<le> 5"
  shows "go_shl64 baseSubsidy (word_of_int k)
    = Some (word_of_int (push_bit (nat k) 50000000000000))"
proof -
  from assms consider "k = 0" | "k = 1" | "k = 2" | "k = 3" | "k = 4" | "k = 5" by force
  then show ?thesis
    by cases (simp_all add: go_shl64_def baseSubsidy_def word_sless_alt push_bit_eq_mult)
qed

text \<open>
  Claim C3, as stated: \<^verbatim>\<open>CalcBlockSubsidy(144999)\<close> is 100_000_000_000_000 and
  \<^verbatim>\<open>CalcBlockSubsidy(145000)\<close> is 50_000_000_000_000. It does not hold: at both heights
  the shift count \<open>height / 100000\<close> is 1, not 0.
\<close>

theorem CalcBlockSubsidy_fork_counterexample:
  "\<not> (CalcBlockSubsidy 144999 = Some 100000000000000
      \<and> CalcBlockSubsidy 145000 = Some 50000000000000)"
  by code_simp

text \<open>
  Claim C3, amended. \<^verbatim>\<open>CalcBlockSubsidy(144999)\<close> is 200_000_000_000_000 and
  \<^verbatim>\<open>CalcBlockSubsidy(145000)\<close> is 100_000_000_000_000: the value halves at the fork
  height.
\<close>

theorem CalcBlockSubsidy_fork_values:
  "CalcBlockSubsidy 144999 = Some 200000000000000
   \<and> CalcBlockSubsidy 145000 = Some 100000000000000"
  by code_simp

lemma sint_push_small:
  assumes "0 \<le> k" and "k \<le> 5"
  shows "sint (word_of_int (push_bit (nat k) 50000000000000) :: int64) = push_bit (nat k) 50000000000000"
    and "sint (word_of_int (push_bit (nat k) 50000000000000) * 2 :: int64) = push_bit (nat k) 50000000000000 * 2"
proof -
  from assms consider "k = 0" | "k = 1" | "k = 2" | "k = 3" | "k = 4" | "k = 5" by force
  then show "sint (word_of_int (push_bit (nat k) 50000000000000) :: int64) = push_bit (nat k) 50000000000000"
    by cases (simp_all add: push_bit_eq_mult)
  from assms consider "k = 0" | "k = 1" | "k = 2" | "k = 3" | "k = 4" | "k = 5" by force
  then show "sint (word_of_int (push_bit (nat k) 50000000000000) * 2 :: int64) = push_bit (nat k) 50000000000000 * 2"
    by cases (simp_all add: push_bit_eq_mult)
qed

text \<open>
  Claim C4. For a height \<open>h\<close> with \<open>0 \<le> h < 145000\<close> the subsidy is
  \<open>(50_000_000_000_000 << (h / 100000)) * 2\<close>; with \<open>145000 \<le> h < 600000\<close> it is
  \<open>50_000_000_000_000 << (h / 100000)\<close>; from 600000 on it is \<open>50_000_000_000_000\<close>. The
  division truncates, the right-hand sides are computed on unbounded integers, and the
  call does not panic.
\<close>

theorem CalcBlockSubsidy_schedule:
  "(0 \<le> sint h \<and> sint h < 145000 \<longrightarrow>
      map_option sint (CalcBlockSubsidy h)
        = Some (push_bit (nat (sint h sdiv 100000)) 50000000000000 * 2))
   \<and> (145000 \<le> sint h \<and> sint h < 600000 \<longrightarrow>
      map_option sint (CalcBlockSubsidy h)
        = Some (push_bit (nat (sint h sdiv 100000)) 50000000000000))
   \<and> (600000 \<le> sint h \<longrightarrow>
      map_option sint (CalcBlockSubsidy h) = Some 50000000000000)"
proof (intro conjI impI)
  assume a: "0 \<le> sint h \<and> sint h < 145000"
  then have r: "0 \<le> sint h" "sint h < 600000" by simp_all
  have s: "sint h sdiv 100000 = sint h div 100000"
    using r by (simp add: signed_divide_int_def sgn_if)
  have "CalcBlockSubsidy h
      = Some (word_of_int (push_bit (nat (sint h div 100000)) 50000000000000) * 2)"
    using a go_shl64_small [OF go_div32_nonneg(2,3) [OF r]]
    by (simp add: CalcBlockSubsidy_def digishieldBlockHeight_def word_sless_alt
        go_div32_nonneg(1) [OF r])
  then show "map_option sint (CalcBlockSubsidy h)
        = Some (push_bit (nat (sint h sdiv 100000)) 50000000000000 * 2)"
    using sint_push_small(2) [OF go_div32_nonneg(2,3) [OF r]] by (simp only: s option.map)
next
  assume a: "145000 \<le> sint h \<and> sint h < 600000"
  then have r: "0 \<le> sint h" "sint h < 600000" by simp_all
  have s: "sint h sdiv 100000 = sint h div 100000"
    using r by (simp add: signed_divide_int_def sgn_if)
  have "CalcBlockSubsidy h
      = Some (word_of_int (push_bit (nat (sint h div 100000)) 50000000000000))"
    using a go_shl64_small [OF go_div32_nonneg(2,3) [OF r]]
    by (simp add: CalcBlockSubsidy_def digishieldBlockHeight_def word_sless_alt
        go_div32_nonneg(1) [OF r])
  then show "map_option sint (CalcBlockSubsidy h)
        = Some (push_bit (nat (sint h sdiv 100000)) 50000000000000)"
    using sint_push_small(1) [OF go_div32_nonneg(2,3) [OF r]] by (simp only: s option.map)
next
  assume "600000 \<le> sint h"
  then show "map_option sint (CalcBlockSubsidy h) = Some 50000000000000"
    by (simp add: CalcBlockSubsidy_def digishieldBlockHeight_def word_sless_alt baseSubsidy_def)
qed

theorem CalcBlockSubsidy_schedule_witness:
  "map_option sint (CalcBlockSubsidy 120000) = Some 200000000000000
   \<and> map_option sint (CalcBlockSubsidy 599999) = Some 1600000000000000
   \<and> map_option sint (CalcBlockSubsidy 600000) = Some 50000000000000"
  using CalcBlockSubsidy_schedule [of 120000] CalcBlockSubsidy_schedule [of 599999]
    CalcBlockSubsidy_schedule [of 600000]
  by (simp add: signed_divide_int_def)

lemma go_div32_ge:
  assumes "- 99999 \<le> sint h"
  shows "0 \<le> sint (go_div32 h subsidyDecreaseBlockCount)"
proof -
  have u: "sint h < 2147483648" using sint_lt [of h] by simp
  have "0 \<le> sint h sdiv 100000 \<and> sint h sdiv 100000 < 2147483648"
  proof (cases "sint h < 0")
    case True
    with assms have "\<bar>sint h\<bar> div 100000 = 0" by simp
    then show ?thesis by (simp add: signed_divide_int_def)
  next
    case False
    then have "sint h sdiv 100000 = sint h div 100000"
      by (simp add: signed_divide_int_def sgn_if)
    moreover have "0 \<le> sint h div 100000" using False by simp
    moreover have "sint h div 100000 \<le> sint h" using False by (simp add: div_by_1 zdiv_mono2 [of "sint h" 1 100000, simplified])
    ultimately show ?thesis using u by linarith
  qed
  then show ?thesis
    by (simp add: go_div32_def subsidyDecreaseBlockCount_def sint_word_of_int_32)
qed

lemma go_div32_neg_small:
  assumes "- 99999 \<le> sint h" and "sint h \<le> - 1"
  shows "go_div32 h subsidyDecreaseBlockCount = 0"
proof -
  from assms have "\<bar>sint h\<bar> div 100000 = 0" by simp
  then show ?thesis
    by (simp add: go_div32_def subsidyDecreaseBlockCount_def signed_divide_int_def)
qed

text \<open>
  Claim C10. For every height \<open>h \<ge> -99999\<close> the shift count \<open>h / 100000\<close> is not
  negative, so \<^verbatim>\<open>CalcBlockSubsidy\<close> does not panic in a shift; for \<open>-99999 \<le> h \<le> -1\<close> it
  returns 100_000_000_000_000, its value at height 0.
\<close>

theorem CalcBlockSubsidy_no_negative_shift:
  "- 99999 \<le> sint h \<Longrightarrow>
     \<not> (go_div32 h subsidyDecreaseBlockCount <s 0)
     \<and> CalcBlockSubsidy h \<noteq> None
     \<and> (sint h \<le> - 1 \<longrightarrow>
          CalcBlockSubsidy h = Some 100000000000000
          \<and> CalcBlockSubsidy h = CalcBlockSubsidy 0)"
proof -
  assume a: "- 99999 \<le> sint h"
  have n: "\<not> (go_div32 h subsidyDecreaseBlockCount <s 0)"
    using go_div32_ge [OF a] by (simp add: word_sless_alt)
  then have p: "CalcBlockSubsidy h \<noteq> None"
    by (simp add: CalcBlockSubsidy_def go_shl64_def)
  have z: "CalcBlockSubsidy 0 = Some 100000000000000" by code_simp
  have "CalcBlockSubsidy h = Some 100000000000000" if "sint h \<le> - 1"
    using that go_div32_neg_small [OF a that]
    by (simp add: CalcBlockSubsidy_def digishieldBlockHeight_def word_sless_alt
        go_shl64_def baseSubsidy_def)
  with n p z show ?thesis by simp
qed

theorem CalcBlockSubsidy_no_negative_shift_witness:
  "- 99999 \<le> sint (- 99999 :: int32)
   \<and> \<not> (go_div32 (- 99999) subsidyDecreaseBlockCount <s 0)
   \<and> CalcBlockSubsidy (- 99999) = Some 100000000000000"
  using CalcBlockSubsidy_no_negative_shift [of "- 99999"] by simp


section \<open>Projection to the plain header\<close>

text \<open>
  Claim C8. For every parent block, \<^verbatim>\<open>ToBlockHeader\<close> gives a block header whose version,
  previous-block hash, merkle root, timestamp, bits and nonce are those of the parent
  block, and whose \<^verbatim>\<open>AuxData\<close> is the zero \<^verbatim>\<open>AuxBlockHeader\<close>.
\<close>

theorem ToBlockHeader_projection:
  "BlockHeader.Version (ToBlockHeader c pb) = ParentBlock.Version pb
   \<and> BlockHeader.PrevBlock (ToBlockHeader c pb) = ParentBlock.PrevBlock pb
   \<and> BlockHeader.MerkleRoot (ToBlockHeader c pb) = ParentBlock.MerkleRoot pb
   \<and> BlockHeader.Timestamp (ToBlockHeader c pb) = ParentBlock.Timestamp pb
   \<and> BlockHeader.Bits (ToBlockHeader c pb) = ParentBlock.Bits pb
   \<and> BlockHeader.Nonce (ToBlockHeader c pb) = ParentBlock.Nonce pb
   \<and> AuxData (ToBlockHeader c pb) = zeroAuxBlockHeader c"
  by (simp add: ToBlockHeader_def)

section \<open>Decoding\<close>


lemma readMerkleBranch_bitmask:
  "readMerkleBranch r pver mb = Return e mb' r' \<Longrightarrow>
     BranchSidesBitmask mb' = BranchSidesBitmask mb"
  by (auto simp add: readMerkleBranch_def split: prod.splits option.splits if_splits)

lemma decode_keeps_bitmasks:
  assumes "readAuxBlockHeader c r pver bh = Return e bh' r'"
  shows "BranchSidesBitmask (CoinbaseBranch bh') = BranchSidesBitmask (CoinbaseBranch bh)"
    and "BranchSidesBitmask (BlockchainBranch bh') = BranchSidesBitmask (BlockchainBranch bh)"
  using assms
  by (auto simp add: readAuxBlockHeader_def Let_def
      split: prod.splits option.splits outcome.splits dest!: readMerkleBranch_bitmask)






section \<open>Facts about the primitive codec\<close>

lemma length_littleEndian_put: "length (littleEndian_put n w) = n"
  by (simp add: littleEndian_put_def)

lemma upt_4: "[0..<4] = [0, 1, 2, 3]"
  by (simp add: upt_rec)

lemma littleEndian_put_4:
  "littleEndian_put 4 w = [ucast w, ucast (drop_bit 8 w), ucast (drop_bit 16 w), ucast (drop_bit 24 w)]"
  by (simp add: littleEndian_put_def upt_4)

lemma littleEndian_get_4:
  "littleEndian_get [a, b, c, d]
     = ucast a OR push_bit 8 (ucast b OR push_bit 8 (ucast c OR push_bit 8 (ucast d)))"
  by (simp add: littleEndian_get_def)

lemma littleEndian_roundtrip_32:
  "littleEndian_get (littleEndian_put 4 (w :: 32 word)) = w"
  unfolding littleEndian_put_4 littleEndian_get_4
proof (rule bit_word_eqI)
  fix n
  assume "n < LENGTH(32)"
  then have n: "n < 32" by simp
  consider "n < 8" | "8 \<le> n" "n < 16" | "16 \<le> n" "n < 24" | "24 \<le> n" "n < 32"
    using n by linarith
  then show "bit (ucast (ucast w :: byte) OR
            push_bit 8 (ucast (ucast (drop_bit 8 w) :: byte) OR
              push_bit 8 (ucast (ucast (drop_bit 16 w) :: byte) OR
                push_bit 8 (ucast (ucast (drop_bit 24 w) :: byte)))) :: 32 word) n = bit w n"
    by cases (auto simp add: bit_simps)
qed

lemma ReadFull_append: "length bs = n \<Longrightarrow> ReadFull (bs @ rest) n = (None, bs, rest)"
  by (simp add: ReadFull_def)

lemma readElement_int32_put:
  "readElement_int32 (littleEndian_put 4 v @ rest) old = (None, v, rest)"
  by (simp add: readElement_int32_def ReadFull_append length_littleEndian_put
      littleEndian_roundtrip_32)

lemma readElement_uint32_put:
  "readElement_uint32 (littleEndian_put 4 v @ rest) old = (None, v, rest)"
  by (simp add: readElement_uint32_def ReadFull_append length_littleEndian_put
      littleEndian_roundtrip_32)

lemma readElement_Hash_append:
  "length h = 32 \<Longrightarrow> readElement_Hash (h @ rest) old = (None, h, rest)"
  by (simp add: readElement_Hash_def ReadFull_append HashSize_def)

lemma sint_ucast_uint32:
  "sint (ucast (w :: uint32) :: int64) = uint w"
proof -
  have "uint w < 2 ^ 32" using uint_lt2p [of w] by simp
  then have "uint w < 2 ^ 63" by simp
  moreover have "- (2 ^ 63) \<le> uint w"
  proof -
    have "(0::int) \<le> uint w" by simp
    moreover have "- (2 ^ 63) \<le> (0::int)" by simp
    ultimately show ?thesis by (rule order_trans [rotated])
  qed
  ultimately have "signed_take_bit 63 (uint w) = uint w"
    by (rule signed_take_bit_int_eq_self [rotated])
  then show ?thesis by (simp add: signed_ucast_eq)
qed

lemma timeUnix_uint32:
  assumes "0 \<le> s" and "s < 4294967296"
  shows "timeUnix (ucast (word_of_int s :: uint32)) = \<lparr>unixSec = s, nsec = 0\<rparr>"
proof -
  have "uint (word_of_int s :: uint32) = s"
    using assms by (simp add: uint_word_of_int)
  then show ?thesis by (simp add: timeUnix_def sint_ucast_uint32)
qed

lemma readElement_uint32Time_put:
  assumes "0 \<le> s" and "s < 4294967296"
  shows "readElement_uint32Time (littleEndian_put 4 (word_of_int s :: uint32) @ rest) old
    = (None, \<lparr>unixSec = s, nsec = 0\<rparr>, rest)"
  using timeUnix_uint32 [OF assms]
  by (simp add: readElement_uint32Time_def ReadFull_append length_littleEndian_put
      littleEndian_roundtrip_32)

section \<open>Encoding of a merkle branch\<close>

lemma WriteVarInt_append: "WriteVarInt w pver val = w @ WriteVarInt [] pver val"
  by (simp add: WriteVarInt_def)

lemma writeLinkHashes_eq:
  "writeLinkHashes w pver hs = w @ concat (replicate (length hs) (littleEndian_put 4 pver))"
  by (induction hs arbitrary: w) simp_all

lemma writeMerkleBranch_bytes:
  assumes "length (LinkHashes mb) < 2 ^ 64"
  shows "writeMerkleBranch w pver mb
           = w @ WriteVarInt [] pver (of_nat (length (LinkHashes mb)))
               @ concat (replicate (length (LinkHashes mb)) (littleEndian_put 4 pver))
               @ littleEndian_put 4 (BranchSidesBitmask mb)"
proof -
  have u: "unat (of_nat (length (LinkHashes mb)) :: uint64) = length (LinkHashes mb)"
    using assms by (simp add: unat_of_nat)
  show ?thesis
    unfolding writeMerkleBranch_def Let_def u
    by (simp add: writeLinkHashes_eq WriteVarInt_append [of w])
qed

text \<open>
  Claim C7, which says: a merkle branch is written as the count of its hashes as a varint,
  then each 32-byte hash verbatim with nothing in between, then the 4-byte bitmask, so
  that \<open>N\<close> hashes take \<open>varint(N) + 32 * N + 4\<close> bytes. The code writes something else:
  after the count, each turn of the loop writes the four bytes of \<^verbatim>\<open>pver\<close> and no hash,
  so that \<open>N\<close> hashes take \<open>varint(N) + 4 * N + 4\<close> bytes.
\<close>

theorem writeMerkleBranch_layout:
  assumes "length (LinkHashes mb) < 2 ^ 64"
  shows "writeMerkleBranch w pver mb
           = w @ WriteVarInt [] pver (of_nat (length (LinkHashes mb)))
               @ concat (replicate (length (LinkHashes mb)) (littleEndian_put 4 pver))
               @ littleEndian_put 4 (BranchSidesBitmask mb)
         \<and> length (writeMerkleBranch w pver mb)
           = length w + length (WriteVarInt [] pver (of_nat (length (LinkHashes mb))))
               + 4 * length (LinkHashes mb) + 4"
proof -
  have l: "length (concat (replicate n (littleEndian_put 4 pver))) = 4 * n" for n
    by (induction n) (simp_all add: length_littleEndian_put)
  from writeMerkleBranch_bytes [OF assms, of w pver] show ?thesis
    by (simp add: l length_littleEndian_put)
qed

text \<open>
  A branch of one hash, written at protocol version 0: nine bytes, none of them from the
  hash, where the layout of the claim has 37.
\<close>

theorem writeMerkleBranch_layout_witness:
  "length (LinkHashes \<lparr>LinkHashes = [replicate 32 7], BranchSidesBitmask = 5\<rparr>) < 2 ^ 64
   \<and> writeMerkleBranch [] 0 \<lparr>LinkHashes = [replicate 32 7], BranchSidesBitmask = 5\<rparr>
       = [1, 0, 0, 0, 0, 5, 0, 0, 0]
   \<and> length (writeMerkleBranch [] 0 \<lparr>LinkHashes = [replicate 32 7], BranchSidesBitmask = 5\<rparr>)
       \<noteq> 1 + 32 * 1 + 4"
proof -
  have h: "length (LinkHashes \<lparr>LinkHashes = [replicate 32 7], BranchSidesBitmask = 5\<rparr>) < 2 ^ 64"
    by simp
  have v: "WriteVarInt [] 0 1 = [1]" by code_simp
  have p: "littleEndian_put 4 (0 :: uint32) = [0, 0, 0, 0]" by code_simp
  have q: "littleEndian_put 4 (5 :: int32) = [5, 0, 0, 0]" by code_simp
  from writeMerkleBranch_layout [OF h, of "[]" 0] h show ?thesis
    by (simp add: v p q)
qed

section \<open>Round trip\<close>

lemma writeBlockHeader_bytes:
  "snd (writeBlockHeader w pver (ToBlockHeader c pb) flag)
     = w @ littleEndian_put 4 (ParentBlock.Version pb) @ ParentBlock.PrevBlock pb
         @ ParentBlock.MerkleRoot pb
         @ littleEndian_put 4 (word_of_int (unixSec (ParentBlock.Timestamp pb)) :: uint32)
         @ littleEndian_put 4 (ParentBlock.Bits pb) @ littleEndian_put 4 (ParentBlock.Nonce pb)"
  by (simp add: writeBlockHeader_def ToBlockHeader_def)

lemma ParentBlock_roundtrip:
  assumes "validParentBlock pb"
  shows "ParentBlock_BtcDecode (snd (writeBlockHeader [] pver (ToBlockHeader c pb) flag) @ rest) pb0
           = (None, pb, rest)"
proof -
  obtain u :: int where t: "ParentBlock.Timestamp pb = \<lparr>unixSec = u, nsec = 0\<rparr>"
    and s: "0 \<le> u" "u < 4294967296"
    using assms by (cases "ParentBlock.Timestamp pb") (auto simp add: validParentBlock_def)
  have l: "length (ParentBlock.PrevBlock pb) = 32" "length (ParentBlock.MerkleRoot pb) = 32"
    using assms by (simp_all add: validParentBlock_def)
  show ?thesis
    unfolding writeBlockHeader_bytes ParentBlock_BtcDecode_def
    using l t by (cases pb)
      (simp add: Let_def readElement_int32_put readElement_uint32_put readElement_Hash_append
        readElement_uint32Time_put [OF s])
qed


lemma writeMerkleBranch_zero:
  "writeMerkleBranch w pver zeroMerkleBranch = w @ 0 # littleEndian_put 4 (0 :: int32)"
  using writeMerkleBranch_bytes [of zeroMerkleBranch w pver]
  by (simp add: zeroMerkleBranch_def WriteVarInt_def)

lemma readMerkleBranch_zero:
  "BranchSidesBitmask mb = 0 \<Longrightarrow>
   readMerkleBranch (0 # littleEndian_put 4 (0 :: int32) @ rest) pver mb
     = Return None (mb\<lparr>LinkHashes := []\<rparr>) rest"
  by (simp add: readMerkleBranch_def ReadVarInt_def maxAlloc_def readElement_int32_byValue_def
      ReadFull_append length_littleEndian_put)

lemma roundtrip_without_branches:
  assumes codec: "\<And>rest tx0.
      BtcDecode c (BtcEncode c (ParentCoinbase x) pver @ rest) pver tx0
        = (None, ParentCoinbase x, rest)"
    and hash: "length (ParentBlockHash x) = 32"
    and pb: "validParentBlock (ParentBlock x)"
    and cb: "CoinbaseBranch x = zeroMerkleBranch"
    and bb: "BlockchainBranch x = zeroMerkleBranch"
  shows "readAuxBlockHeader c (snd (writeAuxBlockHeader c [] pver x)) pver (zeroAuxBlockHeader c)
           = Return None x []"
proof -
  let ?hdr = "snd (writeBlockHeader [] pver (ToBlockHeader c (ParentBlock x)) True)"
  have w: "snd (writeAuxBlockHeader c [] pver x)
      = BtcEncode c (ParentCoinbase x) pver
          @ (ParentBlockHash x @ 0 # littleEndian_put 4 (0 :: int32)
              @ 0 # littleEndian_put 4 (0 :: int32) @ ?hdr)"
    by (simp add: writeAuxBlockHeader_def Let_def cb bb writeMerkleBranch_zero
        writeBlockHeader_bytes [of "_ @ _"] writeBlockHeader_bytes [of "[]"])
  have p: "ParentBlock_BtcDecode ?hdr pb0 = (None, ParentBlock x, [])" for pb0
    using ParentBlock_roundtrip [OF pb, of pver c True "[]" pb0] by simp
  have z: "zeroMerkleBranch\<lparr>LinkHashes := []\<rparr> = zeroMerkleBranch"
    by (simp add: zeroMerkleBranch_def)
  have b: "BranchSidesBitmask zeroMerkleBranch = 0"
    by (simp add: zeroMerkleBranch_def)
  have "readAuxBlockHeader c (snd (writeAuxBlockHeader c [] pver x)) pver (zeroAuxBlockHeader c)
      = Return None
          ((zeroAuxBlockHeader c)
             \<lparr>ParentCoinbase := ParentCoinbase x, ParentBlockHash := ParentBlockHash x,
              CoinbaseBranch := zeroMerkleBranch, BlockchainBranch := zeroMerkleBranch,
              ParentBlock := ParentBlock x\<rparr>) []"
    unfolding w readAuxBlockHeader_def
    by (simp add: codec Let_def readElement_Hash_append [OF hash] zeroAuxBlockHeader_def
        readMerkleBranch_zero [OF b] z p)
  moreover have "(zeroAuxBlockHeader c)
             \<lparr>ParentCoinbase := ParentCoinbase x, ParentBlockHash := ParentBlockHash x,
              CoinbaseBranch := zeroMerkleBranch, BlockchainBranch := zeroMerkleBranch,
              ParentBlock := ParentBlock x\<rparr> = x"
    using cb bb by (cases x) (simp add: zeroAuxBlockHeader_def)
  ultimately show ?thesis by simp
qed


text \<open>
  Claim C1, which says: decoding the encoding of a valid \<^verbatim>\<open>AuxBlockHeader\<close> gives the
  header back, field for field, and likewise for a merkle branch and a parent block. For
  the parent block it holds (\<open>ParentBlock_roundtrip\<close>), and for a header whose branches are
  empty with bitmask 0 (\<open>roundtrip_without_branches\<close>). It fails for every header with a
  bitmask that is not 0: whatever the transaction codec and whatever the decode returns,
  it is not that header.
\<close>

theorem roundtrip_loses_bitmask:
  assumes "BranchSidesBitmask (CoinbaseBranch x) \<noteq> 0
           \<or> BranchSidesBitmask (BlockchainBranch x) \<noteq> 0"
  shows "readAuxBlockHeader c (snd (writeAuxBlockHeader c w pver x)) pver (zeroAuxBlockHeader c)
           \<noteq> Return e x r'"
proof
  assume "readAuxBlockHeader c (snd (writeAuxBlockHeader c w pver x)) pver (zeroAuxBlockHeader c)
           = Return e x r'"
  from decode_keeps_bitmasks [OF this]
  have "BranchSidesBitmask (CoinbaseBranch x) = 0"
    and "BranchSidesBitmask (BlockchainBranch x) = 0"
    by (simp_all add: zeroAuxBlockHeader_def zeroMerkleBranch_def)
  with assms show False by simp
qed

text \<open>
  A header with empty branches and coinbase bitmask 1: the decode succeeds, with bitmask 0.
\<close>

theorem roundtrip_loses_bitmask_witness:
  "BranchSidesBitmask (CoinbaseBranch
       (sampleHeader \<lparr>LinkHashes = [], BranchSidesBitmask = 1\<rparr> zeroMerkleBranch)) \<noteq> 0
   \<and> readAuxBlockHeader emptyTxCodec
        (snd (writeAuxBlockHeader emptyTxCodec [] 0
           (sampleHeader \<lparr>LinkHashes = [], BranchSidesBitmask = 1\<rparr> zeroMerkleBranch)))
        0 (zeroAuxBlockHeader emptyTxCodec)
      = Return None (sampleHeader \<lparr>LinkHashes = [], BranchSidesBitmask = 0\<rparr> zeroMerkleBranch) []
   \<and> readAuxBlockHeader emptyTxCodec
        (snd (writeAuxBlockHeader emptyTxCodec [] 0
           (sampleHeader \<lparr>LinkHashes = [], BranchSidesBitmask = 1\<rparr> zeroMerkleBranch)))
        0 (zeroAuxBlockHeader emptyTxCodec)
      \<noteq> Return None (sampleHeader \<lparr>LinkHashes = [], BranchSidesBitmask = 1\<rparr> zeroMerkleBranch) []"
proof -
  have h: "BranchSidesBitmask (CoinbaseBranch
       (sampleHeader \<lparr>LinkHashes = [], BranchSidesBitmask = 1\<rparr> zeroMerkleBranch)) \<noteq> 0
     \<or> BranchSidesBitmask (BlockchainBranch
       (sampleHeader \<lparr>LinkHashes = [], BranchSidesBitmask = 1\<rparr> zeroMerkleBranch)) \<noteq> 0"
    by (simp add: sampleHeader_def)
  have run: "readAuxBlockHeader emptyTxCodec
        (snd (writeAuxBlockHeader emptyTxCodec [] 0
           (sampleHeader \<lparr>LinkHashes = [], BranchSidesBitmask = 1\<rparr> zeroMerkleBranch)))
        0 (zeroAuxBlockHeader emptyTxCodec)
      = Return None (sampleHeader \<lparr>LinkHashes = [], BranchSidesBitmask = 0\<rparr> zeroMerkleBranch) []"
    by code_simp
  from roundtrip_loses_bitmask [OF h, of emptyTxCodec "[]" 0 None "[]"] run show ?thesis
    by (simp add: sampleHeader_def)
qed

text \<open>
  A header with one link hash and both bitmasks 0: the encoder reports no error, and the
  decode of what it wrote fails.
\<close>

lemma roundtrip_one_link_hash:
  "fst (writeAuxBlockHeader emptyTxCodec [] 0
       (sampleHeader \<lparr>LinkHashes = [replicate 32 5], BranchSidesBitmask = 0\<rparr> zeroMerkleBranch))
     = None
   \<and> (\<exists>bh r. readAuxBlockHeader emptyTxCodec
        (snd (writeAuxBlockHeader emptyTxCodec [] 0
           (sampleHeader \<lparr>LinkHashes = [replicate 32 5], BranchSidesBitmask = 0\<rparr> zeroMerkleBranch)))
        0 (zeroAuxBlockHeader emptyTxCodec)
      = Return (Some TruncatedInput) bh r)"
proof -
  have "fst (writeAuxBlockHeader emptyTxCodec [] 0
       (sampleHeader \<lparr>LinkHashes = [replicate 32 5], BranchSidesBitmask = 0\<rparr> zeroMerkleBranch))
     = None"
    by (simp add: writeAuxBlockHeader_def Let_def)
  moreover have "(case readAuxBlockHeader emptyTxCodec
        (snd (writeAuxBlockHeader emptyTxCodec [] 0
           (sampleHeader \<lparr>LinkHashes = [replicate 32 5], BranchSidesBitmask = 0\<rparr> zeroMerkleBranch)))
        0 (zeroAuxBlockHeader emptyTxCodec) of
        Return (Some TruncatedInput) bh r \<Rightarrow> True | _ \<Rightarrow> False)"
    by code_simp
  ultimately show ?thesis
    by (auto split: outcome.splits option.splits error.splits)
qed

section \<open>Errors of the sub-decodes\<close>

text \<open>
  The errors that \<^verbatim>\<open>readAuxBlockHeader\<close> does return come from a count or from a link
  hash that the stream ends in: the error is a truncation and the stream is used up.
\<close>

lemma ReadFull_error: "ReadFull r n = (Some e, bs, r') \<Longrightarrow> e = TruncatedInput \<and> r' = []"
  by (auto simp add: ReadFull_def split: if_splits)

lemma ReadVarInt_error:
  "ReadVarInt r pver = (Some e, n, r') \<Longrightarrow> e = TruncatedInput \<and> r' = []"
  by (auto simp add: ReadVarInt_def Let_def
      split: list.splits if_splits prod.splits option.splits dest: ReadFull_error)

lemma readLinkHashes_error:
  "readLinkHashes n r hs = (Some e, hs', r') \<Longrightarrow> e = TruncatedInput \<and> r' = []"
proof (induction n arbitrary: r hs)
  case 0
  then show ?case by simp
next
  case (Suc n)
  then show ?case
    by (auto simp add: readElement_Hash_def split: prod.splits option.splits
        dest: ReadFull_error)
qed

lemma readMerkleBranch_error:
  "readMerkleBranch r pver mb = Return (Some e) mb' r' \<Longrightarrow> e = TruncatedInput \<and> r' = []"
  by (auto simp add: readMerkleBranch_def split: prod.splits option.splits if_splits
      dest: ReadVarInt_error readLinkHashes_error)

lemma readAuxBlockHeader_error:
  "readAuxBlockHeader c r pver bh = Return (Some e) bh' r' \<Longrightarrow> e = TruncatedInput \<and> r' = []"
  by (auto simp add: readAuxBlockHeader_def Let_def
      split: prod.splits option.splits outcome.splits dest: readMerkleBranch_error)

text \<open>
  Claim C2, which says: the decode of an \<^verbatim>\<open>AuxBlockHeader\<close> returns an error whenever a
  sub-decode fails, in particular when the transaction decode fails or when the stream
  ends inside a fixed-size field. The code returns \<^verbatim>\<open>nil\<close> on such streams: if the
  transaction decode, with whatever error \<open>e\<close>, leaves a parent block hash, an empty
  coinbase branch with its bitmask and the count 0 of the blockchain branch, and the
  stream ends there, before the second bitmask and the parent block, the result is
  success, with a parent block that was never read.
\<close>

theorem readAuxBlockHeader_errors_dropped:
  assumes "BtcDecode c r pver (ParentCoinbase bh) = (e, tx, h @ [0] @ bm @ [0])"
    and "length h = 32" and "length bm = 4"
  shows "readAuxBlockHeader c r pver bh
           = Return None
               (bh\<lparr>ParentCoinbase := tx, ParentBlockHash := h,
                   CoinbaseBranch := (CoinbaseBranch bh)\<lparr>LinkHashes := []\<rparr>,
                   BlockchainBranch := (BlockchainBranch bh)\<lparr>LinkHashes := []\<rparr>\<rparr>)
               []"
proof -
  have 1: "readElement_Hash (h @ 0 # bm @ [0]) old = (None, h, 0 # bm @ [0])" for old
    using assms(2) by (simp add: readElement_Hash_def ReadFull_def HashSize_def)
  have 2: "readMerkleBranch (0 # bm @ [0]) pver mb = Return None (mb\<lparr>LinkHashes := []\<rparr>) [0]" for mb
    using assms(3)
    by (simp add: readMerkleBranch_def ReadVarInt_def maxAlloc_def
        readElement_int32_byValue_def ReadFull_def)
  have 3: "readMerkleBranch [0] pver mb = Return None (mb\<lparr>LinkHashes := []\<rparr>) []" for mb
    by (simp add: readMerkleBranch_def ReadVarInt_def maxAlloc_def
        readElement_int32_byValue_def ReadFull_def)
  have 4: "ParentBlock_BtcDecode [] pb = (Some TruncatedInput, pb, [])" for pb
    by (simp add: ParentBlock_BtcDecode_def readElement_int32_def ReadFull_def)
  show ?thesis
    using assms(1) by (simp add: readAuxBlockHeader_def Let_def 1 2 3 4)
qed

text \<open>
  A stream whose transaction claims \<open>2 ^ 64 - 1\<close> inputs, so that the transaction decode
  fails, and that ends after the count of the blockchain branch.
\<close>

theorem readAuxBlockHeader_errors_dropped_witness:
  "BtcDecode emptyTxCodec
      ([1, 0, 0, 0, 0xff, 0xff, 0xff, 0xff, 0xff, 0xff, 0xff, 0xff, 0xff]
         @ replicate 32 9 @ [0] @ [1, 2, 3, 4] @ [0])
      0 (ParentCoinbase (zeroAuxBlockHeader emptyTxCodec))
     = (Some UpstreamCodecFailure, \<lparr>TxVersion = 1, LockTime = 0\<rparr>,
        replicate 32 9 @ [0] @ [1, 2, 3, 4] @ [0])
   \<and> readAuxBlockHeader emptyTxCodec
      ([1, 0, 0, 0, 0xff, 0xff, 0xff, 0xff, 0xff, 0xff, 0xff, 0xff, 0xff]
         @ replicate 32 9 @ [0] @ [1, 2, 3, 4] @ [0])
      0 (zeroAuxBlockHeader emptyTxCodec)
     = Return None
         ((zeroAuxBlockHeader emptyTxCodec)
            \<lparr>ParentCoinbase := \<lparr>TxVersion = 1, LockTime = 0\<rparr>,
             ParentBlockHash := replicate 32 9\<rparr>)
         []"
proof -
  have d: "BtcDecode emptyTxCodec
      ([1, 0, 0, 0, 0xff, 0xff, 0xff, 0xff, 0xff, 0xff, 0xff, 0xff, 0xff]
         @ replicate 32 9 @ [0] @ [1, 2, 3, 4] @ [0])
      0 (ParentCoinbase (zeroAuxBlockHeader emptyTxCodec))
     = (Some UpstreamCodecFailure, \<lparr>TxVersion = 1, LockTime = 0\<rparr>,
        replicate 32 9 @ [0] @ [1, 2, 3, 4] @ [0])"
    by code_simp
  from readAuxBlockHeader_errors_dropped [OF d] d show ?thesis
    by (simp add: zeroAuxBlockHeader_def zeroMerkleBranch_def)
qed


end
